theory Spec2Isabelle
  imports Complex_Main
begin

section \<open>Numbers\<close>

text \<open>
  The program is TypeScript; every amount, quantity, coordinate and distance is a JavaScript
  \<open>number\<close>. Finite numbers are modelled as \<^typ>\<open>real\<close>: arithmetic is exact, and the
  non-finite values (NaN, the infinities) are not values of the type. A number that can be
  NaN is a \<^typ>\<open>real option\<close>, \<open>None\<close> for NaN. Where the source tests
  for a value that is not a number (\<open>isNaN\<close>, \<open>typeof x !== 'number'\<close>, \<open>Number(x)\<close> of
  something that does not convert), the value is a \<open>jsval\<close> and the test is a branch of the
  model.
\<close>

datatype jsval = Undefined | Num real | NotNumeric

text \<open>\<open>Number(v)\<close>; \<open>None\<close> stands for NaN.\<close>

fun Number :: "jsval \<Rightarrow> real option" where
  "Number Undefined = None"
| "Number (Num r) = Some r"
| "Number NotNumeric = None"

section \<open>Distance and distance-tiered fees (server/src/utils/distanceUtils.ts)\<close>

record Coordinates =
  latitude :: real
  longitude :: real

text \<open>
  \<open>calculateDistance\<close> evaluates the haversine formula in double-precision arithmetic,
  with \<open>Math.sin\<close>, \<open>Math.cos\<close>, \<open>Math.sqrt\<close>, \<open>Math.atan2\<close> and \<open>Math.round\<close>. What it
  returns depends on how each step is rounded: for two points that are nearly antipodal
  the haversine term can come out just above 1, and the result is then NaN, the square
  root of a negative number. Exact real arithmetic does not compute the same function, so
  \<open>calculateDistance\<close> has no definition here. Where \<open>getShippingInfo\<close> calls it, it is a
  parameter: a function from two coordinate pairs to the number returned, \<open>None\<close> for
  NaN.
\<close>

definition calculateShippingByDistance :: "real \<Rightarrow> real" where
  "calculateShippingByDistance distanceKm =
     (if distanceKm \<le> 10 then 500
      else if distanceKm \<le> 25 then 800
      else if distanceKm \<le> 50 then 1200
      else if distanceKm \<le> 100 then 1800
      else 2500)"

subsection \<open>The client's fee tables\<close>

text \<open>\<open>calculateShipping\<close> of SERVICE/shippingUtils.ts.\<close>

definition calculateShipping_SERVICE :: "real \<Rightarrow> real" where
  "calculateShipping_SERVICE distanceKm =
     (if distanceKm \<le> 10 then 500
      else if distanceKm \<le> 25 then 800
      else if distanceKm \<le> 50 then 1200
      else if distanceKm \<le> 100 then 1800
      else 2500)"

text \<open>\<open>calculateShipping\<close> of the second client file, with seven tiers.\<close>

definition calculateShipping_7tier :: "real \<Rightarrow> real" where
  "calculateShipping_7tier distanceKm =
     (if distanceKm \<le> 10 then 100
      else if distanceKm \<le> 30 then 500
      else if distanceKm \<le> 50 then 800
      else if distanceKm \<le> 70 then 1200
      else if distanceKm \<le> 100 then 1800
      else if distanceKm \<le> 200 then 2500
      else 3000)"

subsection \<open>The shipping quote\<close>

text \<open>
  \<open>geocodeCity\<close> asks an external service; it never throws (every failure is caught and
  becomes \<open>null\<close>). It is a parameter of the model: a function from the city name to the
  coordinates found, \<open>None\<close> for \<open>null\<close> (within one quote the service is taken to
  answer the same name the same way). \<open>calculateDistance\<close> is the parameter described
  above; of a distance that is NaN every comparison in \<open>calculateShippingByDistance\<close> is
  false, which gives the fee of the last branch. To observe which cities are looked up,
  \<open>getShippingInfo\<close> returns, next to its result, the cities it passed to \<open>geocodeCity\<close>,
  in call order.

  The optional arguments \<open>sellerLat\<close>, \<open>sellerLon\<close> are \<open>None\<close> when not passed. The
  source tests them with \<open>if (sellerLat && sellerLon)\<close>: a number is truthy when it is not 0.
\<close>

record ShippingInfo =
  distance :: "real option"
  fee :: real

fun truthy :: "real option \<Rightarrow> bool" where
  "truthy None = False"
| "truthy (Some r) = (r \<noteq> 0)"

definition getShippingInfo ::
  "(string \<Rightarrow> Coordinates option) \<Rightarrow> (Coordinates \<Rightarrow> Coordinates \<Rightarrow> real option)
     \<Rightarrow> string \<Rightarrow> string \<Rightarrow> real option \<Rightarrow> real option
     \<Rightarrow> ShippingInfo option \<times> string list" where
  "getShippingInfo geocodeCity calculateDistance sellerCity buyerCity sellerLat sellerLon =
     (let (sellerCoords, looked_up) =
            (case (sellerLat, sellerLon) of
               (Some lat, Some lon) \<Rightarrow>
                 if truthy sellerLat \<and> truthy sellerLon
                 then (Some \<lparr>latitude = lat, longitude = lon\<rparr>, [])
                 else (geocodeCity sellerCity, [sellerCity])
             | _ \<Rightarrow> (geocodeCity sellerCity, [sellerCity]))
      in case sellerCoords of
           None \<Rightarrow> (None, looked_up)
         | Some sc \<Rightarrow>
             (case geocodeCity buyerCity of
                None \<Rightarrow> (None, looked_up @ [buyerCity])
              | Some bc \<Rightarrow>
                  (let distance = calculateDistance sc bc;
                       shippingFee =
                         (case distance of
                            None \<Rightarrow> 2500
                          | Some distanceKm \<Rightarrow> calculateShippingByDistance distanceKm)
                   in (Some \<lparr>distance = distance, fee = shippingFee\<rparr>,
                       looked_up @ [buyerCity]))))"

section \<open>The cart aggregate (server/src/controllers/cart.controller.ts)\<close>

text \<open>
  An \<open>ObjectId\<close> is identified with its canonical text (what \<open>toString()\<close> returns).
  Building one from a request string (\<open>new mongoose.Types.ObjectId(s)\<close>, or the cast that
  \<open>findById\<close> performs) is library code: it is the parameter \<open>ObjectId\<close> of the operations
  below, \<open>None\<close> when the constructor throws.

  The cart collection is a map from the owner's id to the owner's cart document
  (\<open>Cart.findOne({ user })\<close> is the lookup), the product collection a map from the product's
  id to its \<open>price\<close> field, the only one the controller reads.
\<close>

type_synonym oid = string

record cart_item =
  product :: oid
  quantity :: real
  price :: real

record cart =
  items :: "cart_item list"
  subTotal :: real
  shipping :: real
  total :: real

type_synonym carts = "oid \<rightharpoonup> cart"

type_synonym products = "oid \<rightharpoonup> jsval"

text \<open>
  The schema of the cart model (\<open>cartItemSchema\<close>, \<open>cartSchema\<close>): \<open>quantity\<close> at least 1, \<open>price\<close>, \<open>subTotal\<close>, \<open>shipping\<close>
  and \<open>total\<close> not negative. \<open>validateSync()\<close> and the validation that \<open>save()\<close> runs
  accept a document exactly when \<open>schema_valid\<close> holds.
\<close>

definition item_valid :: "cart_item \<Rightarrow> bool" where
  "item_valid it = (1 \<le> quantity it \<and> 0 \<le> price it)"

definition schema_valid :: "cart \<Rightarrow> bool" where
  "schema_valid c =
     (list_all item_valid (items c) \<and> 0 \<le> subTotal c \<and> 0 \<le> shipping c \<and> 0 \<le> total c)"

definition FREE_DELIVERY_THRESHOLD :: real where
  "FREE_DELIVERY_THRESHOLD = 50000"

definition NORMAL_SHIPPING_FEE :: real where
  "NORMAL_SHIPPING_FEE = 1500"

definition calculateShipping :: "real \<Rightarrow> real" where
  "calculateShipping subtotal =
     (if subtotal \<le> 0 then 0
      else if subtotal \<ge> FREE_DELIVERY_THRESHOLD then 0
      else NORMAL_SHIPPING_FEE)"

text \<open>
  \<open>calculateTotals\<close> takes objects with a \<open>price\<close> and a \<open>quantity\<close>, here pairs
  \<open>(price, quantity)\<close>, and returns \<open>{ subTotal, shipping, total }\<close>, here a triple.
  \<open>reduce\<close> folds from the left, starting at 0.
\<close>

definition calculateTotals :: "(real \<times> real) list \<Rightarrow> real \<times> real \<times> real" where
  "calculateTotals its =
     (let subTotal = foldl (\<lambda>sum (p, q). sum + p * q) 0 its;
          shipping = calculateShipping subTotal;
          total = subTotal + shipping
      in (subTotal, shipping, total))"

text \<open>\<open>x || 0\<close> on a number: 0 when \<open>x\<close> is 0 (or NaN), else \<open>x\<close>.\<close>

definition or_zero :: "real \<Rightarrow> real" where
  "or_zero x = (if x = 0 then 0 else x)"

text \<open>\<open>findIndex\<close>: the index of the first element that satisfies the test, \<open>None\<close> for -1.\<close>

fun findIndex :: "('a \<Rightarrow> bool) \<Rightarrow> 'a list \<Rightarrow> nat option" where
  "findIndex P [] = None"
| "findIndex P (x # xs) = (if P x then Some 0 else map_option Suc (findIndex P xs))"

subsection \<open>Requests and responses\<close>

text \<open>
  Of a request the controller reads \<open>req.user?.id\<close>, \<open>req.user?.role\<close>, the product id
  (\<open>req.body.productId\<close> for add, the route parameter \<open>req.params.id\<close> for update and
  remove) and \<open>req.body.quantity\<close>. A missing field is \<open>None\<close> or \<open>Undefined\<close>. In the body
  \<open>Num r\<close> is any value that \<open>Number\<close> converts to \<open>r\<close>, and \<open>NotNumeric\<close> one that it
  converts to NaN.

  A response is its status with its message, or the success body: the message if any, and
  the cart (\<open>None\<close> for \<open>cart: null\<close>). The cart of a response is the document as saved;
  \<open>populate("items.product")\<close> only replaces each product reference by the product's
  details in the copy that is sent.
\<close>

record request =
  user_id :: "string option"
  user_role :: "string option"
  product_id :: "string option"
  quantity_in :: jsval

datatype response =
    Failure nat string
  | Success "string option" "cart option"

text \<open>A string is falsy when it is missing or empty.\<close>

fun truthy_str :: "string option \<Rightarrow> string option" where
  "truthy_str None = None"
| "truthy_str (Some s) = (if s = [] then None else Some s)"

subsection \<open>addToCart\<close>

text \<open>\<open>const { quantity = 1 } = req.body; const qty = Number(quantity)\<close>\<close>

definition requested_qty :: "jsval \<Rightarrow> real option" where
  "requested_qty q = (case q of Undefined \<Rightarrow> Some 1 | _ \<Rightarrow> Number q)"

text \<open>
  No cart yet (lines 103 to 156): the cart to save, or \<open>None\<close> when one of the checks
  throws. The price is the catalog's: \<open>Number(product.price ?? price)\<close> with
  \<open>product.price\<close> already known to be a number.
\<close>

definition new_cart :: "oid \<Rightarrow> real \<Rightarrow> real \<Rightarrow> cart option" where
  "new_cart pid qty product_price =
     (let itemData = \<lparr>product = pid, quantity = qty, price = product_price\<rparr>
      in if price itemData < 0 then None
         else if quantity itemData \<le> 0 then None
         else (let (s, sh, t) = calculateTotals [(price itemData, quantity itemData)]
               in Some \<lparr>items = [itemData], subTotal = s, shipping = sh, total = t\<rparr>))"

text \<open>
  A cart exists (lines 157 to 210): the quantity is added to the product's line when there
  is one, whose price stays; else a new line is pushed at the catalog price.
\<close>

definition merged_cart :: "oid \<Rightarrow> real \<Rightarrow> real \<Rightarrow> cart \<Rightarrow> cart option" where
  "merged_cart pid qty product_price c =
     (let items' =
            (case findIndex (\<lambda>it. product it = pid) (items c) of
               Some itemIndex \<Rightarrow>
                 (let item = items c ! itemIndex
                  in Some ((items c)[itemIndex := item\<lparr>quantity := quantity item + qty\<rparr>]))
             | None \<Rightarrow>
                 (let newItem = \<lparr>product = pid, quantity = qty, price = product_price\<rparr>
                  in if price newItem < 0 then None else Some (items c @ [newItem])))
      in case items' of
           None \<Rightarrow> None
         | Some its \<Rightarrow>
             (let (s, sh, t) =
                    calculateTotals (map (\<lambda>it. (or_zero (price it), or_zero (quantity it))) its)
              in Some (c\<lparr>items := its, subTotal := s, shipping := sh, total := t\<rparr>)))"

definition addToCart ::
  "(string \<Rightarrow> oid option) \<Rightarrow> products \<Rightarrow> carts \<Rightarrow> request \<Rightarrow> response \<times> carts" where
  "addToCart ObjectId catalog carts req =
     (case truthy_str (user_id req) of
        None \<Rightarrow> (Failure 401 ''Authentication required'', carts)
      | Some userId \<Rightarrow>
     (case truthy_str (product_id req) of
        None \<Rightarrow> (Failure 400 ''Product ID is required'', carts)
      | Some productId \<Rightarrow>
     (case requested_qty (quantity_in req) of
        None \<Rightarrow> (Failure 400 ''Quantity must be a positive number'', carts)
      | Some qty \<Rightarrow>
     if qty \<le> 0 then (Failure 400 ''Quantity must be a positive number'', carts)
     else if truthy_str (user_role req) \<noteq> None \<and> user_role req \<noteq> Some ''buyer''
     then (Failure 403 ''Need to be a buyer'', carts)
     else
     (case ObjectId productId of
        None \<Rightarrow> (Failure 500 ''Server error'', carts)
      | Some pid \<Rightarrow>
     (case catalog pid of
        None \<Rightarrow> (Failure 400 ''Product not found'', carts)
      | Some Undefined \<Rightarrow> (Failure 400 ''Product has invalid price'', carts)
      | Some NotNumeric \<Rightarrow> (Failure 400 ''Product has invalid price'', carts)
      | Some (Num product_price) \<Rightarrow>
     (case ObjectId userId of
        None \<Rightarrow> (Failure 400 ''Invalid user ID format'', carts)
      | Some userObjectId \<Rightarrow>
     (case (case carts userObjectId of
              None \<Rightarrow> new_cart pid qty product_price
            | Some c \<Rightarrow> merged_cart pid qty product_price c) of
        None \<Rightarrow> (Failure 500 ''Server error'', carts)
      | Some c' \<Rightarrow>
          if schema_valid c'
          then (Success (Some ''Item added to cart'') (Some c'), carts(userObjectId \<mapsto> c'))
          else (Failure 400 ''Server error'', carts))))))))"

subsection \<open>updateCart\<close>

text \<open>
  \<open>findOne\<close> asks for the owner's cart with a line of the product's \<open>ObjectId\<close>; the line is
  then found by comparing each line's product text with the route parameter as it came.
  \<open>item.quantity = Number(quantity)\<close> with NaN is a cast error, on which \<open>save()\<close> rejects.
  Every exception gives status 500.
\<close>

definition updateCart ::
  "(string \<Rightarrow> oid option) \<Rightarrow> carts \<Rightarrow> request \<Rightarrow> response \<times> carts" where
  "updateCart ObjectId carts req =
     (case truthy_str (user_id req) of
        None \<Rightarrow> (Failure 401 ''Authentication required'', carts)
      | Some userId \<Rightarrow>
     (case truthy_str (product_id req) of
        None \<Rightarrow> (Failure 400 ''Invalid product id'', carts)
      | Some productId \<Rightarrow>
     (case ObjectId userId of
        None \<Rightarrow> (Failure 500 ''Server Error'', carts)
      | Some userObjectId \<Rightarrow>
     (case ObjectId productId of
        None \<Rightarrow> (Failure 500 ''Server Error'', carts)
      | Some productObjectId \<Rightarrow>
     (case carts userObjectId of
        None \<Rightarrow> (Failure 404 ''Cart item not found'', carts)
      | Some c \<Rightarrow>
     if \<not> list_ex (\<lambda>it. product it = productObjectId) (items c)
     then (Failure 404 ''Cart item not found'', carts)
     else
     (case findIndex (\<lambda>it. product it = productId) (items c) of
        None \<Rightarrow> (Failure 404 ''Cart item not found'', carts)
      | Some i \<Rightarrow>
     (case Number (quantity_in req) of
        None \<Rightarrow> (Failure 500 ''Server Error'', carts)
      | Some q \<Rightarrow>
          (let its = (items c)[i := (items c ! i)\<lparr>quantity := q\<rparr>];
               (s, sh, t) = calculateTotals (map (\<lambda>it. (price it, quantity it)) its);
               c' = c\<lparr>items := its, subTotal := s, shipping := sh, total := t\<rparr>
           in if schema_valid c'
              then (Success None (Some c'), carts(userObjectId \<mapsto> c'))
              else (Failure 500 ''Server Error'', carts)))))))))"

subsection \<open>removeItem\<close>

text \<open>
  \<open>findOneAndUpdate\<close> with \<open>$pull\<close> removes every line of the product and stores the cart
  at once; the totals are computed and saved after it. Should that \<open>save()\<close> reject, the
  pulled item list is already stored.
\<close>

definition removeItem ::
  "(string \<Rightarrow> oid option) \<Rightarrow> carts \<Rightarrow> request \<Rightarrow> response \<times> carts" where
  "removeItem ObjectId carts req =
     (case truthy_str (user_id req) of
        None \<Rightarrow> (Failure 401 ''Authentication required'', carts)
      | Some userId \<Rightarrow>
     (case truthy_str (product_id req) of
        None \<Rightarrow> (Failure 400 ''Invalid product id'', carts)
      | Some productId \<Rightarrow>
     (case ObjectId userId of
        None \<Rightarrow> (Failure 500 ''Server Error'', carts)
      | Some userObjectId \<Rightarrow>
     (case ObjectId productId of
        None \<Rightarrow> (Failure 500 ''Server Error'', carts)
      | Some productObjectId \<Rightarrow>
     (case carts userObjectId of
        None \<Rightarrow> (Failure 404 ''Cart not found'', carts)
      | Some c \<Rightarrow>
          (let pulled = c\<lparr>items := filter (\<lambda>it. product it \<noteq> productObjectId) (items c)\<rparr>;
               carts1 = carts(userObjectId \<mapsto> pulled);
               (s, sh, t) = calculateTotals (map (\<lambda>it. (price it, quantity it)) (items pulled));
               c' = pulled\<lparr>subTotal := s, shipping := sh, total := t\<rparr>
           in if schema_valid c'
              then (Success None (Some c'), carts1(userObjectId \<mapsto> c'))
              else (Failure 500 ''Server Error'', carts1)))))))"

subsection \<open>getItems\<close>

definition getItems ::
  "(string \<Rightarrow> oid option) \<Rightarrow> carts \<Rightarrow> request \<Rightarrow> response" where
  "getItems ObjectId carts req =
     (case truthy_str (user_id req) of
        None \<Rightarrow> Failure 401 ''Authentication required''
      | Some userId \<Rightarrow>
     (case ObjectId userId of
        None \<Rightarrow> Failure 500 ''Server Error''
      | Some userObjectId \<Rightarrow>
     (case carts userObjectId of
        None \<Rightarrow> Success (Some ''No items in cart'') None
      | Some c \<Rightarrow>
          if items c = [] then Success (Some ''No items in cart'') None
          else Success None (Some c))))"

section \<open>The client's cart store\<close>

text \<open>
  The store keeps the item list, a loading flag, the last error, the user id, the buyer's
  city and the shipping cost. Field names that the model already uses elsewhere carry the
  suffix \<open>_c\<close>, the fields of a product the suffix \<open>_p\<close>.
\<close>

record Product =
  id_p :: string
  name_p :: string
  description_p :: string
  price_p :: real
  image_p :: string
  category_p :: string
  stock_p :: real

record CartItem =
  product_c :: Product
  quantity_c :: real

record CartState =
  items_c :: "CartItem list"
  isLoading :: bool
  error :: "string option"
  userId_c :: "string option"
  buyerCity_c :: string
  shippingCost :: real

text \<open>
  How the request to the server settles: it resolves, or it rejects with an error whose
  \<open>message\<close> may be missing. \<open>addItem\<close> settles the same way, since it rethrows.
\<close>

datatype settled = Resolved | Rejected "string option"

text \<open>\<open>err?.message || fallback\<close>\<close>

fun message_or :: "string option \<Rightarrow> string \<Rightarrow> string" where
  "message_or None fallback = fallback"
| "message_or (Some m) fallback = (if m = [] then fallback else m)"

text \<open>
  The optimistic update of \<open>addItem\<close>, the function given to \<open>set\<close>. It builds a new
  array (\<open>[...state.items]\<close>) and a new item object; the array and the items that
  \<open>prevItems\<close> refers to are not written to.
\<close>

definition addItem_optimistic :: "Product \<Rightarrow> real \<Rightarrow> CartItem list \<Rightarrow> CartItem list" where
  "addItem_optimistic product' qty its =
     (case findIndex (\<lambda>i. id_p (product_c i) = id_p product') its of
        Some idx \<Rightarrow>
          its[idx := (its ! idx)\<lparr>quantity_c := or_zero (quantity_c (its ! idx)) + qty\<rparr>]
      | None \<Rightarrow> its @ [\<lparr>product_c = product', quantity_c = qty\<rparr>])"

text \<open>
  \<open>addItem(product, qty = 1)\<close>, the parameter \<open>product\<close> written \<open>product'\<close>. The
  guard on \<open>typeof addToCart\<close> never fires, \<open>addToCart\<close> being an imported function,
  which rejects when the request fails. \<open>await\<close> suspends \<open>addItem\<close> until the request settles;
  \<open>meanwhile\<close> is what other handlers did to the store in between (the identity when
  nothing else ran), \<open>server\<close> how the request settled.
\<close>

definition addItem ::
  "CartState \<Rightarrow> Product \<Rightarrow> real option \<Rightarrow> (CartState \<Rightarrow> CartState) \<Rightarrow> settled
     \<Rightarrow> settled \<times> CartState" where
  "addItem state product' qty_opt meanwhile server =
     (let qty = (case qty_opt of None \<Rightarrow> 1 | Some q \<Rightarrow> q);
          prevItems = items_c state;
          state1 = state\<lparr>items_c := addItem_optimistic product' qty (items_c state)\<rparr>;
          state2 = meanwhile state1
      in case server of
           Resolved \<Rightarrow> (Resolved, state2)
         | Rejected err \<Rightarrow>
             (Rejected err,
              state2\<lparr>items_c := prevItems,
                     error := Some (message_or err ''Failed to add to cart'')\<rparr>))"

section \<open>Vocabulary of the properties\<close>

text \<open>The stored totals agree with the stored item list.\<close>

definition totals_consistent :: "cart \<Rightarrow> bool" where
  "totals_consistent c =
     (subTotal c = (\<Sum>it\<leftarrow>items c. price it * quantity it) \<and>
      shipping c = calculateShipping (subTotal c) \<and>
      total c = subTotal c + shipping c)"

definition cart_ok :: "cart \<Rightarrow> bool" where
  "cart_ok c = (schema_valid c \<and> totals_consistent c)"

text \<open>
  The cart collections that the controller can produce: from the empty collection, by any
  calls of the three mutating operations, whatever they answer.
\<close>

inductive reachable :: "(string \<Rightarrow> oid option) \<Rightarrow> carts \<Rightarrow> bool"
  for ObjectId :: "string \<Rightarrow> oid option" where
  start: "reachable ObjectId Map.empty"
| add: "reachable ObjectId carts \<Longrightarrow>
          reachable ObjectId (snd (addToCart ObjectId catalog carts req))"
| update: "reachable ObjectId carts \<Longrightarrow>
          reachable ObjectId (snd (updateCart ObjectId carts req))"
| remove: "reachable ObjectId carts \<Longrightarrow>
          reachable ObjectId (snd (removeItem ObjectId carts req))"

text \<open>
  A sequence of \<open>addToCart\<close> calls, each with the catalog as it is at that call: the
  final collection when every call succeeds, \<open>None\<close> as soon as one fails.
\<close>

fun addToCart_seq ::
  "(string \<Rightarrow> oid option) \<Rightarrow> carts \<Rightarrow> (products \<times> request) list \<Rightarrow> carts option" where
  "addToCart_seq ObjectId carts [] = Some carts"
| "addToCart_seq ObjectId carts ((catalog, req) # rest) =
     (case addToCart ObjectId catalog carts req of
        (Success m c, carts') \<Rightarrow> addToCart_seq ObjectId carts' rest
      | (Failure status msg, carts') \<Rightarrow> None)"

subsection \<open>Example data\<close>

text \<open>
  A catalog with one chair at 1000, the same catalog after the price went up to 1200, a
  buyer's requests, and the carts they lead to.
\<close>

definition chair_catalog :: products where
  "chair_catalog = [''p1'' \<mapsto> Num 1000]"

definition dearer_catalog :: products where
  "dearer_catalog = [''p1'' \<mapsto> Num 1200]"

definition buyer_request :: "string \<Rightarrow> jsval \<Rightarrow> request" where
  "buyer_request pid q =
     \<lparr>user_id = Some ''u1'', user_role = Some ''buyer'', product_id = Some pid,
      quantity_in = q\<rparr>"

definition chairs_cart :: "real \<Rightarrow> cart" where
  "chairs_cart n =
     \<lparr>items = [\<lparr>product = ''p1'', quantity = n, price = 1000\<rparr>],
      subTotal = 1000 * n, shipping = 1500, total = 1000 * n + 1500\<rparr>"

definition emptied_cart :: cart where
  "emptied_cart = \<lparr>items = [], subTotal = 0, shipping = 0, total = 0\<rparr>"

definition nairobi_only :: "string \<Rightarrow> Coordinates option" where
  "nairobi_only city =
     (if city = ''Nairobi'' then Some \<lparr>latitude = - 129 / 100, longitude = 3682 / 100\<rparr>
      else None)"

section \<open>Fee properties\<close>

text \<open>
  C3. The fee of \<open>calculateShippingByDistance\<close> (the spec's \<open>calculateShippingFee\<close>) is a
  step function over bands closed on the upper bound: up to 10 km 500, above 10 and up to 25
  km 800, above 25 and up to 50 km 1200, above 50 and up to 100 km 1800, above 100 km 2500.
  In particular the fees at 10, 10.01, 100 and 100.01 km are 500, 800, 1800 and 2500, and a
  longer distance never has a smaller fee.
\<close>

theorem fee_is_banded_and_monotone:
  "(d \<le> 10 \<longrightarrow> calculateShippingByDistance d = 500) \<and>
   (10 < d \<and> d \<le> 25 \<longrightarrow> calculateShippingByDistance d = 800) \<and>
   (25 < d \<and> d \<le> 50 \<longrightarrow> calculateShippingByDistance d = 1200) \<and>
   (50 < d \<and> d \<le> 100 \<longrightarrow> calculateShippingByDistance d = 1800) \<and>
   (100 < d \<longrightarrow> calculateShippingByDistance d = 2500) \<and>
   calculateShippingByDistance 10 = 500 \<and>
   calculateShippingByDistance (1001 / 100) = 800 \<and>
   calculateShippingByDistance 100 = 1800 \<and>
   calculateShippingByDistance (10001 / 100) = 2500 \<and>
   (d \<le> d' \<longrightarrow> calculateShippingByDistance d \<le> calculateShippingByDistance d')"
  by (simp add: calculateShippingByDistance_def)

text \<open>
  One distance in each band, and the pair 7 km and 250 km for monotonicity.
\<close>

theorem fee_is_banded_and_monotone_witness:
  "calculateShippingByDistance 7 = 500 \<and>
   calculateShippingByDistance 18 = 800 \<and>
   calculateShippingByDistance 40 = 1200 \<and>
   calculateShippingByDistance 75 = 1800 \<and>
   calculateShippingByDistance 250 = 2500 \<and>
   calculateShippingByDistance 7 \<le> calculateShippingByDistance 250"
  using fee_is_banded_and_monotone [of 7 250] fee_is_banded_and_monotone [of 18 18]
    fee_is_banded_and_monotone [of 40 40] fee_is_banded_and_monotone [of 75 75]
    fee_is_banded_and_monotone [of 250 250]
  by simp

text \<open>
  C4, as the spec states it, asks for a distance on which the server's table and the table
  of SERVICE/shippingUtils.ts differ. There is none: the two functions have the same
  breakpoints and the same fees.
\<close>

theorem server_and_SERVICE_tables_never_differ:
  "\<not> (\<exists>d. calculateShippingByDistance d \<noteq> calculateShipping_SERVICE d)"
  by (simp add: calculateShippingByDistance_def calculateShipping_SERVICE_def)

text \<open>
  C4, amended. The server's table and the table of SERVICE/shippingUtils.ts give the same
  fee for every distance; the seven-tier client table is inconsistent with each of them:
  there is a distance (5 km: 100 against 500) on which it returns a different fee.
\<close>

theorem fee_tables_compared:
  "(\<forall>d. calculateShippingByDistance d = calculateShipping_SERVICE d) \<and>
   (\<exists>d. calculateShippingByDistance d \<noteq> calculateShipping_7tier d) \<and>
   (\<exists>d. calculateShipping_SERVICE d \<noteq> calculateShipping_7tier d)"
proof (intro conjI)
  show "\<forall>d. calculateShippingByDistance d = calculateShipping_SERVICE d"
    by (simp add: calculateShippingByDistance_def calculateShipping_SERVICE_def)
  have "calculateShippingByDistance 5 \<noteq> calculateShipping_7tier 5"
    by (simp add: calculateShippingByDistance_def calculateShipping_7tier_def)
  then show "\<exists>d. calculateShippingByDistance d \<noteq> calculateShipping_7tier d" ..
  have "calculateShipping_SERVICE 5 \<noteq> calculateShipping_7tier 5"
    by (simp add: calculateShipping_SERVICE_def calculateShipping_7tier_def)
  then show "\<exists>d. calculateShipping_SERVICE d \<noteq> calculateShipping_7tier d" ..
qed

section \<open>Shipping quote properties\<close>

text \<open>
  C6. Whatever the cities and the coordinate hint: if geocoding the buyer city finds
  nothing, or the seller city has to be geocoded (the hint is not used) and geocoding it
  finds nothing, then \<open>getShippingInfo\<close> returns \<open>null\<close>: no quote, so no distance and no
  fee.
\<close>

theorem getShippingInfo_not_available:
  assumes "geocodeCity buyerCity = None \<or>
           (\<not> (truthy sellerLat \<and> truthy sellerLon) \<and> geocodeCity sellerCity = None)"
  shows "fst (getShippingInfo geocodeCity calculateDistance sellerCity buyerCity
               sellerLat sellerLon) = None"
  using assms
  by (cases sellerLat; cases sellerLon)
     (auto simp: getShippingInfo_def Let_def split: option.splits)

text \<open>
  An unknown buyer city with a usable hint, and an unknown seller city without a hint.
\<close>

theorem getShippingInfo_not_available_witness:
  "nairobi_only ''Atlantis'' = None \<and>
   fst (getShippingInfo nairobi_only (\<lambda>c1 c2. Some 0) ''Nairobi'' ''Atlantis''
          (Some 1) (Some 37)) = None \<and>
   \<not> (truthy None \<and> truthy None) \<and>
   fst (getShippingInfo nairobi_only (\<lambda>c1 c2. Some 0) ''Atlantis'' ''Nairobi''
          None None) = None"
  using
    getShippingInfo_not_available [of nairobi_only "''Atlantis''" "Some 1" "Some 37"
      "''Nairobi''" "\<lambda>c1 c2. Some 0"]
    getShippingInfo_not_available [of nairobi_only "''Nairobi''" None None
      "''Atlantis''" "\<lambda>c1 c2. Some 0"]
  by (simp add: nairobi_only_def)

text \<open>
  C9. A seller whose saved latitude is 0 (on the equator) passes the hint (0, 34.6). The
  test \<open>sellerLat && sellerLon\<close> takes the number 0 for a missing value, so the seller city
  is geocoded all the same; here that lookup finds nothing and the quote is \<open>null\<close>, the
  buyer city not even looked up, whatever \<open>calculateDistance\<close> computes.
\<close>

theorem getShippingInfo_ignores_zero_hint:
  "\<forall>calculateDistance.
     getShippingInfo nairobi_only calculateDistance ''Maseno'' ''Nairobi''
       (Some 0) (Some (173 / 5)) = (None, [''Maseno''])"
  by (simp add: getShippingInfo_def nairobi_only_def)

section \<open>Cart properties\<close>

subsection \<open>Totals\<close>

lemma foldl_subtotal:
  "foldl (\<lambda>sum (p, q). sum + p * q) a its = a + (\<Sum>(p, q)\<leftarrow>its. p * q)"
  by (induction its arbitrary: a) (auto simp: algebra_simps)

lemma calculateTotals_items:
  "calculateTotals (map (\<lambda>it. (price it, quantity it)) its) =
     ((\<Sum>it\<leftarrow>its. price it * quantity it),
      calculateShipping (\<Sum>it\<leftarrow>its. price it * quantity it),
      (\<Sum>it\<leftarrow>its. price it * quantity it) +
        calculateShipping (\<Sum>it\<leftarrow>its. price it * quantity it))"
  by (simp add: calculateTotals_def foldl_subtotal comp_def Let_def)

lemma or_zero_id [simp]: "or_zero x = x"
  by (simp add: or_zero_def)

lemma truthy_str_Some: "truthy_str x = Some s \<Longrightarrow> x = Some s"
  by (cases x) (auto split: if_splits)

lemma sum_items_nonneg:
  "list_all item_valid its \<Longrightarrow> 0 \<le> (\<Sum>it\<leftarrow>its. price it * quantity it)"
  by (induction its) (auto simp: item_valid_def)

lemma calculateShipping_nonneg: "0 \<le> calculateShipping s"
  by (simp add: calculateShipping_def NORMAL_SHIPPING_FEE_def)

lemma list_all_filter: "list_all P xs \<Longrightarrow> list_all P (filter Q xs)"
  by (induction xs) auto

lemma filter_absent:
  "p \<notin> product ` set its \<Longrightarrow> filter (\<lambda>it. product it \<noteq> p) its = its"
  by (induction its) auto

subsection \<open>What a successful call did\<close>

lemma new_cart_consistent:
  "new_cart pid qty pr = Some c \<Longrightarrow> totals_consistent c"
  by (auto simp: new_cart_def totals_consistent_def calculateTotals_def Let_def
      split: if_splits)

lemma merged_cart_consistent:
  "merged_cart pid qty pr c0 = Some c \<Longrightarrow> totals_consistent c"
  by (auto simp: merged_cart_def totals_consistent_def calculateTotals_items Let_def
      split: if_splits option.splits)

lemma new_cart_items:
  "new_cart p qty pr = Some c \<Longrightarrow> items c = [\<lparr>product = p, quantity = qty, price = pr\<rparr>]"
  by (auto simp: new_cart_def Let_def split: if_splits prod.splits)

lemma merged_cart_empty:
  "items c0 = [] \<Longrightarrow> merged_cart p qty pr c0 = Some c \<Longrightarrow>
     items c = [\<lparr>product = p, quantity = qty, price = pr\<rparr>]"
  by (auto simp: merged_cart_def Let_def split: if_splits prod.splits)

lemma merged_cart_single:
  "items c0 = [\<lparr>product = p, quantity = q0, price = pr0\<rparr>] \<Longrightarrow>
   merged_cart p qty pr c0 = Some c \<Longrightarrow>
     items c = [\<lparr>product = p, quantity = q0 + qty, price = pr0\<rparr>]"
  by (auto simp: merged_cart_def Let_def split: if_splits prod.splits)

lemma addToCart_success:
  assumes "addToCart ObjectId catalog carts req = (Success m r, carts')"
  shows "\<exists>uid u pid p qty pr c'.
           truthy_str (user_id req) = Some uid \<and> ObjectId uid = Some u \<and>
           truthy_str (product_id req) = Some pid \<and> ObjectId pid = Some p \<and>
           requested_qty (quantity_in req) = Some qty \<and> 0 < qty \<and>
           catalog p = Some (Num pr) \<and>
           (case carts u of None \<Rightarrow> new_cart p qty pr
            | Some c \<Rightarrow> merged_cart p qty pr c) = Some c' \<and>
           schema_valid c' \<and> carts' = carts(u \<mapsto> c') \<and> r = Some c' \<and>
           m = Some ''Item added to cart''"
  using assms unfolding addToCart_def
  by (auto split: option.splits if_splits jsval.splits)

lemma addToCart_success_for:
  assumes "addToCart ObjectId catalog carts req = (Success m r, carts')"
    and "user_id req = Some uid" and "product_id req = Some pid"
    and "ObjectId uid = Some u" and "ObjectId pid = Some p"
  shows "\<exists>qty pr c'.
           requested_qty (quantity_in req) = Some qty \<and> 0 < qty \<and>
           catalog p = Some (Num pr) \<and>
           (case carts u of None \<Rightarrow> new_cart p qty pr
            | Some c \<Rightarrow> merged_cart p qty pr c) = Some c' \<and>
           schema_valid c' \<and> carts' = carts(u \<mapsto> c') \<and> r = Some c'"
proof -
  from addToCart_success [OF assms(1)] obtain uid' u' pid' p' qty pr c' where
    h: "truthy_str (user_id req) = Some uid'" "ObjectId uid' = Some u'"
       "truthy_str (product_id req) = Some pid'" "ObjectId pid' = Some p'"
       "requested_qty (quantity_in req) = Some qty" "0 < qty"
       "catalog p' = Some (Num pr)"
       "(case carts u' of None \<Rightarrow> new_cart p' qty pr
         | Some c \<Rightarrow> merged_cart p' qty pr c) = Some c'"
       "schema_valid c'" "carts' = carts(u' \<mapsto> c')" "r = Some c'"
    by blast
  from h(1) assms(2) have "uid' = uid" by (auto split: if_splits)
  with h(2) assms(4) have "u' = u" by simp
  from h(3) assms(3) have "pid' = pid" by (auto split: if_splits)
  with h(4) assms(5) have "p' = p" by simp
  from h(5-11) \<open>u' = u\<close> \<open>p' = p\<close> show ?thesis by blast
qed

lemma updateCart_success:
  assumes "updateCart ObjectId carts req = (Success m r, carts')"
  shows "\<exists>uid u c c'.
           truthy_str (user_id req) = Some uid \<and> ObjectId uid = Some u \<and>
           carts u = Some c \<and> r = Some c' \<and> carts' = carts(u \<mapsto> c') \<and>
           schema_valid c' \<and> totals_consistent c'"
  using assms unfolding updateCart_def
  by (auto simp: Let_def calculateTotals_items totals_consistent_def
      split: option.splits if_splits)

lemma removeItem_success:
  assumes "removeItem ObjectId carts req = (Success m r, carts')"
  shows "\<exists>uid u c c'.
           truthy_str (user_id req) = Some uid \<and> ObjectId uid = Some u \<and>
           carts u = Some c \<and> r = Some c' \<and> carts' = carts(u \<mapsto> c') \<and>
           schema_valid c' \<and> totals_consistent c'"
  using assms unfolding removeItem_def
  by (auto simp: Let_def calculateTotals_items totals_consistent_def
      split: option.splits if_splits)

text \<open>
  C1. When \<open>addToCart\<close>, \<open>updateCart\<close> or \<open>removeItem\<close> answers with success, the cart
  then stored for the owner (which is the cart of the answer) has \<open>subTotal\<close> equal to the
  sum of price times quantity over its items, \<open>shipping\<close> equal to \<open>calculateShipping\<close> of
  that \<open>subTotal\<close>, and \<open>total\<close> equal to \<open>subTotal\<close> plus \<open>shipping\<close>.
\<close>

theorem successful_mutation_stores_fresh_totals:
  "(addToCart ObjectId catalog carts req = (Success m r, carts') \<longrightarrow>
      (\<exists>uid u c. user_id req = Some uid \<and> ObjectId uid = Some u \<and>
         carts' u = Some c \<and> r = Some c \<and> totals_consistent c)) \<and>
   (updateCart ObjectId carts req = (Success m r, carts') \<longrightarrow>
      (\<exists>uid u c. user_id req = Some uid \<and> ObjectId uid = Some u \<and>
         carts' u = Some c \<and> r = Some c \<and> totals_consistent c)) \<and>
   (removeItem ObjectId carts req = (Success m r, carts') \<longrightarrow>
      (\<exists>uid u c. user_id req = Some uid \<and> ObjectId uid = Some u \<and>
         carts' u = Some c \<and> r = Some c \<and> totals_consistent c))"
proof (intro conjI impI)
  assume a: "addToCart ObjectId catalog carts req = (Success m r, carts')"
  from addToCart_success [OF a] obtain uid u p qty pr c' where
    h: "truthy_str (user_id req) = Some uid" "ObjectId uid = Some u"
       "(case carts u of None \<Rightarrow> new_cart p qty pr
         | Some c \<Rightarrow> merged_cart p qty pr c) = Some c'"
       "carts' = carts(u \<mapsto> c')" "r = Some c'"
    by blast
  from h(3) have "totals_consistent c'"
    by (auto split: option.splits dest: new_cart_consistent merged_cart_consistent)
  with h show "\<exists>uid u c. user_id req = Some uid \<and> ObjectId uid = Some u \<and>
         carts' u = Some c \<and> r = Some c \<and> totals_consistent c"
    by (auto dest: truthy_str_Some)
next
  assume "updateCart ObjectId carts req = (Success m r, carts')"
  from updateCart_success [OF this]
  show "\<exists>uid u c. user_id req = Some uid \<and> ObjectId uid = Some u \<and>
         carts' u = Some c \<and> r = Some c \<and> totals_consistent c"
    by (auto dest: truthy_str_Some)
next
  assume "removeItem ObjectId carts req = (Success m r, carts')"
  from removeItem_success [OF this]
  show "\<exists>uid u c. user_id req = Some uid \<and> ObjectId uid = Some u \<and>
         carts' u = Some c \<and> r = Some c \<and> totals_consistent c"
    by (auto dest: truthy_str_Some)
qed

subsection \<open>Calls on the example data\<close>

lemma add_two_chairs:
  "addToCart Some chair_catalog Map.empty (buyer_request ''p1'' (Num 2)) =
     (Success (Some ''Item added to cart'') (Some (chairs_cart 2)),
      [''u1'' \<mapsto> chairs_cart 2])"
  by (simp add: addToCart_def chair_catalog_def buyer_request_def requested_qty_def
      new_cart_def calculateTotals_def calculateShipping_def FREE_DELIVERY_THRESHOLD_def
      NORMAL_SHIPPING_FEE_def schema_valid_def item_valid_def chairs_cart_def)

lemma add_three_more_chairs:
  "addToCart Some dearer_catalog [''u1'' \<mapsto> chairs_cart 2] (buyer_request ''p1'' (Num 3)) =
     (Success (Some ''Item added to cart'') (Some (chairs_cart 5)),
      [''u1'' \<mapsto> chairs_cart 5])"
  by (simp add: addToCart_def dearer_catalog_def buyer_request_def requested_qty_def
      merged_cart_def calculateTotals_def calculateShipping_def FREE_DELIVERY_THRESHOLD_def
      NORMAL_SHIPPING_FEE_def schema_valid_def item_valid_def chairs_cart_def)

lemma set_chairs_to_four:
  "updateCart Some [''u1'' \<mapsto> chairs_cart 2] (buyer_request ''p1'' (Num 4)) =
     (Success None (Some (chairs_cart 4)), [''u1'' \<mapsto> chairs_cart 4])"
  by (simp add: updateCart_def buyer_request_def calculateTotals_def calculateShipping_def
      FREE_DELIVERY_THRESHOLD_def NORMAL_SHIPPING_FEE_def schema_valid_def item_valid_def
      chairs_cart_def Let_def)

lemma remove_the_chairs:
  "removeItem Some [''u1'' \<mapsto> chairs_cart 2] (buyer_request ''p1'' Undefined) =
     (Success None (Some emptied_cart), [''u1'' \<mapsto> emptied_cart])"
  by (simp add: removeItem_def buyer_request_def calculateTotals_def calculateShipping_def
      schema_valid_def chairs_cart_def emptied_cart_def Let_def)

text \<open>
  Adding two chairs to no cart, setting the two chairs to four, and removing the chairs:
  each call succeeds, and the cart it stores has fresh totals.
\<close>

theorem successful_mutation_stores_fresh_totals_witness:
  "addToCart Some chair_catalog Map.empty (buyer_request ''p1'' (Num 2)) =
     (Success (Some ''Item added to cart'') (Some (chairs_cart 2)),
      [''u1'' \<mapsto> chairs_cart 2]) \<and>
   totals_consistent (chairs_cart 2) \<and>
   updateCart Some [''u1'' \<mapsto> chairs_cart 2] (buyer_request ''p1'' (Num 4)) =
     (Success None (Some (chairs_cart 4)), [''u1'' \<mapsto> chairs_cart 4]) \<and>
   totals_consistent (chairs_cart 4) \<and>
   removeItem Some [''u1'' \<mapsto> chairs_cart 2] (buyer_request ''p1'' Undefined) =
     (Success None (Some emptied_cart), [''u1'' \<mapsto> emptied_cart]) \<and>
   totals_consistent emptied_cart"
proof -
  have "totals_consistent (chairs_cart 2)"
    using successful_mutation_stores_fresh_totals [of Some chair_catalog Map.empty
      "buyer_request ''p1'' (Num 2)" "Some ''Item added to cart''" "Some (chairs_cart 2)"
      "[''u1'' \<mapsto> chairs_cart 2]", THEN conjunct1, THEN mp, OF add_two_chairs]
    by auto
  moreover have "totals_consistent (chairs_cart 4)"
    using successful_mutation_stores_fresh_totals [of Some chair_catalog
      "[''u1'' \<mapsto> chairs_cart 2]" "buyer_request ''p1'' (Num 4)" None
      "Some (chairs_cart 4)" "[''u1'' \<mapsto> chairs_cart 4]",
      THEN conjunct2, THEN conjunct1, THEN mp, OF set_chairs_to_four]
    by auto
  moreover have "totals_consistent emptied_cart"
    using successful_mutation_stores_fresh_totals [of Some chair_catalog
      "[''u1'' \<mapsto> chairs_cart 2]" "buyer_request ''p1'' Undefined" None
      "Some emptied_cart" "[''u1'' \<mapsto> emptied_cart]",
      THEN conjunct2, THEN conjunct2, THEN mp, OF remove_the_chairs]
    by auto
  ultimately show ?thesis
    by (simp add: add_two_chairs set_chairs_to_four remove_the_chairs)
qed

subsection \<open>Repeated adds of one product\<close>

lemma addToCart_seq_single:
  assumes "\<forall>(catalog, req) \<in> set calls. user_id req = Some uid \<and> product_id req = Some pid"
    and "ObjectId uid = Some u" and "ObjectId pid = Some p"
    and "carts u = Some c" and "items c = [\<lparr>product = p, quantity = q0, price = pr\<rparr>]"
    and "subTotal c = pr * q0"
    and "addToCart_seq ObjectId carts calls = Some carts'"
    and "map (\<lambda>(catalog, req). requested_qty (quantity_in req)) calls = map Some qs"
  shows "\<exists>c'. carts' u = Some c' \<and>
           items c' = [\<lparr>product = p, quantity = q0 + sum_list qs, price = pr\<rparr>] \<and>
           subTotal c' = pr * (q0 + sum_list qs)"
  using assms
proof (induction calls arbitrary: carts c q0 qs)
  case Nil
  then show ?case by simp
next
  case (Cons call calls)
  obtain catalog req where call: "call = (catalog, req)" by (cases call)
  from Cons.prems(8) obtain q qs' where qs: "qs = q # qs'"
    "requested_qty (quantity_in req) = Some q"
    "map (\<lambda>(catalog, req). requested_qty (quantity_in req)) calls = map Some qs'"
    by (cases qs) (auto simp: call)
  from Cons.prems(1) have req: "user_id req = Some uid" "product_id req = Some pid"
    and rest: "\<forall>(catalog, req) \<in> set calls. user_id req = Some uid \<and> product_id req = Some pid"
    by (auto simp: call)
  from Cons.prems(7) obtain m r carts1 where
    step: "addToCart ObjectId catalog carts req = (Success m r, carts1)"
    and seq: "addToCart_seq ObjectId carts1 calls = Some carts'"
    by (auto simp: call split: prod.splits response.splits)
  from addToCart_success_for [OF step req Cons.prems(2,3)] Cons.prems(4) qs(2)
  obtain pr1 c1 where m: "merged_cart p q pr1 c = Some c1" and c1: "carts1 = carts(u \<mapsto> c1)"
    by auto
  from merged_cart_single [OF Cons.prems(5) m]
  have its: "items c1 = [\<lparr>product = p, quantity = q0 + q, price = pr\<rparr>]" .
  from merged_cart_consistent [OF m] its have sub: "subTotal c1 = pr * (q0 + q)"
    by (simp add: totals_consistent_def)
  from c1 have "carts1 u = Some c1" by simp
  from Cons.IH [OF rest Cons.prems(2,3) this its sub seq qs(3)]
  show ?case by (simp add: qs(1) add.assoc)
qed

text \<open>
  C2. Take an owner who has no cart, or a cart without items, and any non-empty sequence
  of \<open>addToCart\<close> calls of that owner for one product, all successful, the catalog being
  whatever it is at each call. Then the owner's cart has exactly one line: the product,
  with the sum of the requested quantities and with the price the catalog had at the first
  call; and the cart's \<open>subTotal\<close> is that price times that sum.
\<close>

theorem repeated_adds_merge_into_one_line:
  assumes "calls \<noteq> []"
    and "\<forall>(catalog, req) \<in> set calls. user_id req = Some uid \<and> product_id req = Some pid"
    and "ObjectId uid = Some u" and "ObjectId pid = Some p"
    and "case carts u of None \<Rightarrow> True | Some c0 \<Rightarrow> items c0 = []"
    and "addToCart_seq ObjectId carts calls = Some carts'"
    and "map (\<lambda>(catalog, req). requested_qty (quantity_in req)) calls = map Some qs"
    and "fst (hd calls) p = Some (Num first_price)"
  shows "\<exists>c. carts' u = Some c \<and>
           items c = [\<lparr>product = p, quantity = sum_list qs, price = first_price\<rparr>] \<and>
           subTotal c = first_price * sum_list qs"
proof -
  from assms(1) obtain catalog req calls' where calls: "calls = (catalog, req) # calls'"
    by (cases calls) auto
  from assms(7) obtain q qs' where qs: "qs = q # qs'"
    "requested_qty (quantity_in req) = Some q"
    "map (\<lambda>(catalog, req). requested_qty (quantity_in req)) calls' = map Some qs'"
    by (cases qs) (auto simp: calls)
  from assms(2) have req: "user_id req = Some uid" "product_id req = Some pid"
    and rest: "\<forall>(catalog, req) \<in> set calls'. user_id req = Some uid \<and> product_id req = Some pid"
    by (auto simp: calls)
  from assms(6) obtain m r carts1 where
    step: "addToCart ObjectId catalog carts req = (Success m r, carts1)"
    and seq: "addToCart_seq ObjectId carts1 calls' = Some carts'"
    by (auto simp: calls split: prod.splits response.splits)
  from assms(8) have cat: "catalog p = Some (Num first_price)"
    by (simp add: calls)
  from addToCart_success_for [OF step req assms(3,4)] qs(2) cat
  obtain c1 where
    m: "(case carts u of None \<Rightarrow> new_cart p q first_price
         | Some c \<Rightarrow> merged_cart p q first_price c) = Some c1"
    and c1: "carts1 = carts(u \<mapsto> c1)"
    by auto
  from m assms(5) have its: "items c1 = [\<lparr>product = p, quantity = q, price = first_price\<rparr>]"
    by (auto split: option.splits dest: new_cart_items merged_cart_empty)
  from m have "totals_consistent c1"
    by (auto split: option.splits dest: new_cart_consistent merged_cart_consistent)
  with its have sub: "subTotal c1 = first_price * q"
    by (simp add: totals_consistent_def)
  from c1 have "carts1 u = Some c1" by simp
  from addToCart_seq_single [OF rest assms(3,4) this its sub seq qs(3)]
  show ?thesis
    by (simp add: qs(1))
qed

text \<open>
  Two chairs at 1000 into no cart, then three more when the catalog says 1200: one line
  of five chairs at 1000, \<open>subTotal\<close> 5000.
\<close>

theorem repeated_adds_merge_into_one_line_witness:
  "addToCart_seq Some Map.empty
     [(chair_catalog, buyer_request ''p1'' (Num 2)),
      (dearer_catalog, buyer_request ''p1'' (Num 3))] = Some [''u1'' \<mapsto> chairs_cart 5] \<and>
   (\<exists>c. [''u1'' \<mapsto> chairs_cart 5] ''u1'' = Some c \<and>
      items c = [\<lparr>product = ''p1'', quantity = sum_list [2, 3], price = 1000\<rparr>] \<and>
      subTotal c = 1000 * sum_list [2, 3])"
proof -
  have run: "addToCart_seq Some Map.empty
     [(chair_catalog, buyer_request ''p1'' (Num 2)),
      (dearer_catalog, buyer_request ''p1'' (Num 3))] = Some [''u1'' \<mapsto> chairs_cart 5]"
    by (simp add: add_two_chairs add_three_more_chairs)
  have same: "\<forall>(catalog, req) \<in> set [(chair_catalog, buyer_request ''p1'' (Num 2)),
           (dearer_catalog, buyer_request ''p1'' (Num 3))].
            user_id req = Some ''u1'' \<and> product_id req = Some ''p1''"
    by (simp add: buyer_request_def)
  have qs: "map (\<lambda>(catalog, req). requested_qty (quantity_in req))
           [(chair_catalog, buyer_request ''p1'' (Num 2)),
            (dearer_catalog, buyer_request ''p1'' (Num 3))] = map Some [2, 3]"
    by (simp add: buyer_request_def requested_qty_def)
  have first: "fst (hd [(chair_catalog, buyer_request ''p1'' (Num 2)),
                   (dearer_catalog, buyer_request ''p1'' (Num 3))]) ''p1'' = Some (Num 1000)"
    by (simp add: chair_catalog_def)
  have none: "case (Map.empty :: carts) ''u1'' of None \<Rightarrow> True | Some c0 \<Rightarrow> items c0 = []"
    by simp
  from repeated_adds_merge_into_one_line [where ObjectId = Some and carts = Map.empty
      and uid = "''u1''" and pid = "''p1''" and u = "''u1''" and p = "''p1''"
      and calls = "[(chair_catalog, buyer_request ''p1'' (Num 2)),
                    (dearer_catalog, buyer_request ''p1'' (Num 3))]"
      and carts' = "[''u1'' \<mapsto> chairs_cart 5]" and qs = "[2, 3]" and first_price = 1000,
      OF _ same refl refl none run qs first]
  have "\<exists>c. [''u1'' \<mapsto> chairs_cart 5] ''u1'' = Some c \<and>
      items c = [\<lparr>product = ''p1'', quantity = sum_list [2, 3], price = 1000\<rparr>] \<and>
      subTotal c = 1000 * sum_list [2, 3]"
    by simp
  with run show ?thesis by blast
qed

subsection \<open>The collections the controller can produce\<close>

lemma addToCart_cases:
  "(\<exists>st msg. addToCart ObjectId catalog carts req = (Failure st msg, carts)) \<or>
   (\<exists>m r carts'. addToCart ObjectId catalog carts req = (Success m r, carts'))"
  unfolding addToCart_def
  by (simp split: option.splits if_splits jsval.splits)

lemma updateCart_cases:
  "(\<exists>st msg. updateCart ObjectId carts req = (Failure st msg, carts)) \<or>
   (\<exists>m r carts'. updateCart ObjectId carts req = (Success m r, carts'))"
  unfolding updateCart_def
  by (simp add: Let_def split: option.splits if_splits prod.splits)

lemma removeItem_ok:
  assumes "carts u = Some c" "cart_ok c"
    "truthy_str (user_id req) = Some uid" "ObjectId uid = Some u"
    "truthy_str (product_id req) = Some pid" "ObjectId pid = Some p"
  shows "\<exists>c'. removeItem ObjectId carts req = (Success None (Some c'), carts(u \<mapsto> c')) \<and>
           cart_ok c' \<and> items c' = filter (\<lambda>it. product it \<noteq> p) (items c)"
proof -
  let ?its = "filter (\<lambda>it. product it \<noteq> p) (items c)"
  let ?S = "\<Sum>it\<leftarrow>?its. price it * quantity it"
  let ?c' = "c\<lparr>items := ?its, subTotal := ?S, shipping := calculateShipping ?S,
                 total := ?S + calculateShipping ?S\<rparr>"
  have v: "list_all item_valid ?its"
    using assms(2) by (simp add: cart_ok_def schema_valid_def list_all_filter)
  have "schema_valid ?c'"
    using v sum_items_nonneg [OF v] calculateShipping_nonneg [of ?S]
    by (simp add: schema_valid_def)
  moreover have "totals_consistent ?c'"
    by (simp add: totals_consistent_def)
  ultimately show ?thesis
    using assms(1,3-6)
    by (simp add: removeItem_def Let_def calculateTotals_items cart_ok_def)
qed

lemma removeItem_cases:
  "(\<exists>st msg. removeItem ObjectId carts req = (Failure st msg, carts)) \<or>
   (\<exists>m r carts'. removeItem ObjectId carts req = (Success m r, carts')) \<or>
   (\<exists>uid u c. truthy_str (user_id req) = Some uid \<and> ObjectId uid = Some u \<and>
       carts u = Some c \<and> \<not> cart_ok c)"
proof (cases "\<exists>uid u pid p c. truthy_str (user_id req) = Some uid \<and> ObjectId uid = Some u \<and>
    truthy_str (product_id req) = Some pid \<and> ObjectId pid = Some p \<and> carts u = Some c")
  case True
  then obtain uid u pid p c where
    h: "truthy_str (user_id req) = Some uid" "ObjectId uid = Some u"
       "truthy_str (product_id req) = Some pid" "ObjectId pid = Some p" "carts u = Some c"
    by blast
  show ?thesis
  proof (cases "cart_ok c")
    case True
    from removeItem_ok [of carts u c req uid ObjectId pid p] h True show ?thesis by auto
  next
    case False
    with h show ?thesis by blast
  qed
next
  case False
  then have "\<exists>st msg. removeItem ObjectId carts req = (Failure st msg, carts)"
    unfolding removeItem_def
    by (auto split: option.splits)
  then show ?thesis by blast
qed

text \<open>
  Every cart of a collection that the controller can produce satisfies the schema and has
  totals that agree with its items.
\<close>

lemma reachable_carts_ok:
  "reachable ObjectId carts \<Longrightarrow> carts u = Some c \<Longrightarrow> cart_ok c"
proof (induction arbitrary: u c rule: reachable.induct)
  case start
  then show ?case by simp
next
  case (add carts catalog req)
  from addToCart_cases [of ObjectId catalog carts req] show ?case
  proof (elim disjE exE)
    fix st msg assume "addToCart ObjectId catalog carts req = (Failure st msg, carts)"
    with add show ?thesis by simp
  next
    fix m r carts' assume a: "addToCart ObjectId catalog carts req = (Success m r, carts')"
    from addToCart_success [OF a] obtain u' p qty pr c' where
      h: "(case carts u' of None \<Rightarrow> new_cart p qty pr
           | Some c \<Rightarrow> merged_cart p qty pr c) = Some c'"
         "carts' = carts(u' \<mapsto> c')" "schema_valid c'"
      by blast
    from h(1) have "totals_consistent c'"
      by (auto split: option.splits dest: new_cart_consistent merged_cart_consistent)
    with h add.IH add.prems a show ?thesis
      by (auto simp: cart_ok_def split: if_splits)
  qed
next
  case (update carts req)
  from updateCart_cases [of ObjectId carts req] show ?case
  proof (elim disjE exE)
    fix st msg assume "updateCart ObjectId carts req = (Failure st msg, carts)"
    with update show ?thesis by simp
  next
    fix m r carts' assume a: "updateCart ObjectId carts req = (Success m r, carts')"
    from updateCart_success [OF a] update.IH update.prems a show ?thesis
      by (auto simp: cart_ok_def split: if_splits)
  qed
next
  case (remove carts req)
  from removeItem_cases [of ObjectId carts req] show ?case
  proof (elim disjE exE conjE)
    fix st msg assume "removeItem ObjectId carts req = (Failure st msg, carts)"
    with remove show ?thesis by simp
  next
    fix m r carts' assume a: "removeItem ObjectId carts req = (Success m r, carts')"
    from removeItem_success [OF a] remove.IH remove.prems a show ?thesis
      by (auto simp: cart_ok_def split: if_splits)
  next
    fix uid u' c' assume "carts u' = Some c'" "\<not> cart_ok c'"
    with remove.IH show ?thesis by blast
  qed
qed

lemma removeItem_404:
  "fst (removeItem ObjectId carts req) = Failure 404 msg \<Longrightarrow>
     \<exists>uid u. user_id req = Some uid \<and> ObjectId uid = Some u \<and> carts u = None"
  unfolding removeItem_def
  by (auto simp: Let_def split: option.splits if_splits prod.splits dest: truthy_str_Some)

text \<open>
  C7. In a collection that the controller can produce, let the owner of a request have a
  cart, and let the request name a product id that is on no line of that cart. Then
  \<open>removeItem\<close> answers with success and the cart, and the collection is as before: the
  cart's items, \<open>subTotal\<close>, \<open>shipping\<close> and \<open>total\<close> are unchanged. And whenever
  \<open>removeItem\<close> answers 404, the owner of the request has no cart.
\<close>

theorem removeItem_absent_product_is_noop:
  assumes "reachable ObjectId carts"
    and "truthy_str (user_id req) = Some uid" and "ObjectId uid = Some u"
    and "truthy_str (product_id req) = Some pid" and "ObjectId pid = Some p"
    and "carts u = Some c"
    and "p \<notin> product ` set (items c)"
  shows "removeItem ObjectId carts req = (Success None (Some c), carts) \<and>
         (\<forall>req' msg. fst (removeItem ObjectId carts req') = Failure 404 msg \<longrightarrow>
            (\<exists>uid' u'. user_id req' = Some uid' \<and> ObjectId uid' = Some u' \<and>
               carts u' = None))"
proof
  have ok: "cart_ok c"
    using assms(1,6) by (rule reachable_carts_ok)
  from removeItem_ok [of carts u c req uid ObjectId pid p] assms ok
  obtain c' where r: "removeItem ObjectId carts req = (Success None (Some c'), carts(u \<mapsto> c'))"
    and ok': "cart_ok c'" and its: "items c' = filter (\<lambda>it. product it \<noteq> p) (items c)"
    by blast
  from its assms(7) have "items c' = items c"
    by (simp add: filter_absent)
  with ok ok' have "c' = c"
    by (simp add: cart_ok_def totals_consistent_def)
  with r assms(6) show "removeItem ObjectId carts req = (Success None (Some c), carts)"
    by (simp add: map_upd_triv)
  show "\<forall>req' msg. fst (removeItem ObjectId carts req') = Failure 404 msg \<longrightarrow>
            (\<exists>uid' u'. user_id req' = Some uid' \<and> ObjectId uid' = Some u' \<and>
               carts u' = None)"
    using removeItem_404 by blast
qed

text \<open>
  After two chairs were added, the buyer asks to remove a product that is not in the
  cart: success, and nothing changed.
\<close>

theorem removeItem_absent_product_is_noop_witness:
  "reachable Some [''u1'' \<mapsto> chairs_cart 2] \<and>
   ''p2'' \<notin> product ` set (items (chairs_cart 2)) \<and>
   removeItem Some [''u1'' \<mapsto> chairs_cart 2] (buyer_request ''p2'' Undefined) =
     (Success None (Some (chairs_cart 2)), [''u1'' \<mapsto> chairs_cart 2])"
proof -
  have "reachable Some (snd (addToCart Some chair_catalog Map.empty
          (buyer_request ''p1'' (Num 2))))"
    by (rule reachable.add [OF reachable.start])
  then have r: "reachable Some [''u1'' \<mapsto> chairs_cart 2]"
    by (simp add: add_two_chairs)
  have absent: "''p2'' \<notin> product ` set (items (chairs_cart 2))"
    by (simp add: chairs_cart_def)
  have uid: "truthy_str (user_id (buyer_request ''p2'' Undefined)) = Some ''u1''"
    by (simp add: buyer_request_def)
  have pid: "truthy_str (product_id (buyer_request ''p2'' Undefined)) = Some ''p2''"
    by (simp add: buyer_request_def)
  have c: "[''u1'' \<mapsto> chairs_cart 2] ''u1'' = Some (chairs_cart 2)"
    by simp
  from removeItem_absent_product_is_noop [where ObjectId = Some and u = "''u1''"
      and p = "''p2''" and carts = "[''u1'' \<mapsto> chairs_cart 2]",
      OF r uid refl pid refl c absent] r absent
  show ?thesis by blast
qed

subsection \<open>Reading the cart\<close>

text \<open>
  C10. For an authenticated owner \<open>getItems\<close> answers with success and \<open>cart: null\<close>
  both when the collection has no cart for the owner and when it has one whose item list
  is empty; the two answers are the same, so the caller cannot tell the two apart.
\<close>

theorem getItems_null_for_absent_and_emptied:
  assumes "truthy_str (user_id req) = Some uid" and "ObjectId uid = Some u"
    and "carts_absent u = None"
    and "carts_emptied u = Some c" and "items c = []"
  shows "getItems ObjectId carts_absent req = Success (Some ''No items in cart'') None \<and>
         getItems ObjectId carts_emptied req = getItems ObjectId carts_absent req"
  using assms by (simp add: getItems_def)

text \<open>
  The collection before the buyer's first add, and the one after the buyer's only line
  was removed.
\<close>

theorem getItems_null_for_absent_and_emptied_witness:
  "snd (removeItem Some [''u1'' \<mapsto> chairs_cart 2] (buyer_request ''p1'' Undefined)) =
     [''u1'' \<mapsto> emptied_cart] \<and>
   items emptied_cart = [] \<and>
   getItems Some Map.empty (buyer_request ''p1'' Undefined) =
     Success (Some ''No items in cart'') None \<and>
   getItems Some [''u1'' \<mapsto> emptied_cart] (buyer_request ''p1'' Undefined) =
     getItems Some Map.empty (buyer_request ''p1'' Undefined)"
proof -
  have uid: "truthy_str (user_id (buyer_request ''p1'' Undefined)) = Some ''u1''"
    by (simp add: buyer_request_def)
  have e: "items emptied_cart = []"
    by (simp add: emptied_cart_def)
  have a: "(Map.empty :: carts) ''u1'' = None"
    by simp
  have c: "[''u1'' \<mapsto> emptied_cart] ''u1'' = Some emptied_cart"
    by simp
  from getItems_null_for_absent_and_emptied [where ObjectId = Some and u = "''u1''"
      and carts_absent = Map.empty and carts_emptied = "[''u1'' \<mapsto> emptied_cart]",
      OF uid refl a c e] e
  show ?thesis by (simp add: remove_the_chairs)
qed

section \<open>Client store properties\<close>

lemma addItem_resolved:
  "addItem state product' qty meanwhile Resolved =
     (Resolved,
      meanwhile (state\<lparr>items_c :=
        addItem_optimistic product' (case qty of None \<Rightarrow> 1 | Some q \<Rightarrow> q) (items_c state)\<rparr>))"
  by (simp add: addItem_def Let_def)

lemma addItem_optimistic_new:
  "findIndex (\<lambda>i. id_p (product_c i) = id_p product') its = None \<Longrightarrow>
     addItem_optimistic product' qty its = its @ [\<lparr>product_c = product', quantity_c = qty\<rparr>]"
  by (simp add: addItem_optimistic_def)

text \<open>
  C8. Whatever the store holds, whatever product and quantity are added, and whatever
  happens to the store while the request is under way: when the request fails, \<open>addItem\<close>
  leaves the store with exactly the item list it had before the call, records the reason
  in \<open>error\<close>, and rethrows.
\<close>

theorem addItem_failure_restores_items:
  "items_c (snd (addItem state product' qty meanwhile (Rejected err))) = items_c state \<and>
   error (snd (addItem state product' qty meanwhile (Rejected err))) =
     Some (message_or err ''Failed to add to cart'') \<and>
   fst (addItem state product' qty meanwhile (Rejected err)) = Rejected err"
  by (simp add: addItem_def Let_def)

end
